theory Spec2Isabelle
  imports Main
begin

section \<open>Values exchanged with the client\<close>

text \<open>
  The handlers of \<^verbatim>\<open>app.py\<close> receive \<^verbatim>\<open>request.get_json()\<close>, a Python value built
  from a JSON document, and answer with \<^verbatim>\<open>jsonify(...)\<close>. Both are values of the type
  below. A Python \<^verbatim>\<open>dict\<close> keeps its insertion order and has no duplicate key; it is an
  association list read with \<open>map_of\<close>. JSON numbers with a fraction (Python floats) are
  left out of the model.
\<close>

datatype json =
    JNull
  | JBool bool
  | JInt int
  | JStr string
  | JList "json list"
  | JObj "(string \<times> json) list"

text \<open>Uncaught Python exceptions; Flask turns each into a 500 reply.\<close>

datatype exn =
    KeyError string
  | TypeError
  | AttributeError
  | IntegrityError
  | JSONDecodeError

text \<open>
  What a handler gives back: \<^verbatim>\<open>jsonify(body), code\<close>; the empty body of
  \<^verbatim>\<open>return '', 204\<close>; an \<^verbatim>\<open>abort(code)\<close> raised by \<^verbatim>\<open>get_or_404\<close> or by
  \<^verbatim>\<open>request.get_json()\<close>; or an uncaught exception.
\<close>

datatype reply =
    Json json nat
  | Empty nat
  | Abort nat
  | Raised exn

text \<open>
  The request as the handlers read it: \<^verbatim>\<open>session.get('user_id')\<close> and the outcome of
  \<^verbatim>\<open>request.get_json()\<close>, which is either the parsed value or the status code Flask
  aborts with when the body is no JSON document.
\<close>

record request =
  session_user_id :: "nat option"
  get_json :: "nat + json"

text \<open>
  The library functions the handlers call and \<^verbatim>\<open>app.py\<close> does not define:
  \<^verbatim>\<open>json.dumps\<close>, \<^verbatim>\<open>json.loads\<close> (\<open>None\<close> when it raises) and
  \<^verbatim>\<open>datetime.isoformat\<close>. They are parameters of the model.
\<close>

record lib =
  dumps :: "json \<Rightarrow> string"
  loads :: "string \<Rightarrow> json option"
  isoformat :: "nat \<Rightarrow> string"

section \<open>Database models\<close>

text \<open>
  One record per \<^verbatim>\<open>db.Model\<close> class. A column that a handler fills from the request
  holds whatever Python value was assigned, hence a \<open>json\<close>; \<^verbatim>\<open>options\<close> and
  \<^verbatim>\<open>response_data\<close> are nullable text columns; time stamps are points of a clock
  counted in \<open>nat\<close>.
\<close>

record survey =
  sv_id :: nat
  sv_title :: json
  sv_description :: json
  sv_status :: json
  sv_created_at :: nat
  sv_updated_at :: nat
  sv_user_id :: nat

record question =
  q_id :: nat
  q_survey_id :: nat
  q_type :: json
  q_text :: json
  q_description :: json
  q_required :: json
  q_options :: "string option"
  q_order :: json

record response =
  r_id :: nat
  r_survey_id :: nat
  r_user_id :: "nat option"
  r_response_data :: "string option"
  r_created_at :: nat

text \<open>
  The three tables. A table is the list of its rows in the order in which a query
  without \<^verbatim>\<open>ORDER BY\<close> returns them, which for these tables is the order of the
  primary keys. The \<^verbatim>\<open>user\<close> table is not part of the model: the handlers below
  read the user only from the session.
\<close>

record db =
  surveys :: "survey list"
  questions :: "question list"
  responses :: "response list"

text \<open>
  An integer primary key of a new row: one more than the largest key in the table,
  1 in an empty table.
\<close>

definition next_id :: "nat list \<Rightarrow> nat" where
  "next_id ids = Suc (fold max ids 0)"

text \<open>\<^verbatim>\<open>Model.query.get_or_404(id)\<close>: the row with that key, \<open>None\<close> for the 404.\<close>

definition get_survey_row :: "db \<Rightarrow> nat \<Rightarrow> survey option" where
  "get_survey_row st sid = find (\<lambda>s. sv_id s = sid) (surveys st)"

definition get_question_row :: "db \<Rightarrow> nat \<Rightarrow> question option" where
  "get_question_row st qid = find (\<lambda>q. q_id q = qid) (questions st)"

definition get_response_row :: "db \<Rightarrow> nat \<Rightarrow> response option" where
  "get_response_row st rid = find (\<lambda>r. r_id r = rid) (responses st)"

text \<open>The relationships \<^verbatim>\<open>survey.questions\<close> and \<^verbatim>\<open>survey.responses\<close>.\<close>

definition survey_questions :: "db \<Rightarrow> nat \<Rightarrow> question list" where
  "survey_questions st sid = filter (\<lambda>q. q_survey_id q = sid) (questions st)"

definition survey_responses :: "db \<Rightarrow> nat \<Rightarrow> response list" where
  "survey_responses st sid = filter (\<lambda>r. r_survey_id r = sid) (responses st)"

text \<open>
  \<^verbatim>\<open>json.loads(x) if x else []\<close> on a nullable text column: \<^verbatim>\<open>None\<close> and the
  empty string are false. The result \<open>None\<close> stands for the exception of
  \<^verbatim>\<open>json.loads\<close>.
\<close>

definition loads_or_empty :: "lib \<Rightarrow> string option \<Rightarrow> json option" where
  "loads_or_empty L t =
     (case t of
        None \<Rightarrow> Some (JList [])
      | Some s \<Rightarrow> if s = [] then Some (JList []) else loads L s)"

text \<open>\<^verbatim>\<open>dict.get(key, default)\<close> on the items of a dict.\<close>

definition dict_get :: "(string \<times> json) list \<Rightarrow> string \<Rightarrow> json \<Rightarrow> json" where
  "dict_get kvs k d = (case map_of kvs k of None \<Rightarrow> d | Some v \<Rightarrow> v)"

text \<open>
  The values a column of each declared type holds: a string for \<^verbatim>\<open>String\<close> and
  \<^verbatim>\<open>Text\<close>, a truth value for \<^verbatim>\<open>Boolean\<close>, a whole number of 64 bits for
  \<^verbatim>\<open>Integer\<close>, and \<^verbatim>\<open>None\<close> for each. What the database driver makes of a value of another type
  is not modelled; the properties of stored rows are stated for requests whose fields are
  of the type of their column.
\<close>

fun is_text :: "json \<Rightarrow> bool" where
  "is_text JNull = True"
| "is_text (JStr s) = True"
| "is_text v = False"

fun is_boolean :: "json \<Rightarrow> bool" where
  "is_boolean JNull = True"
| "is_boolean (JBool b) = True"
| "is_boolean v = False"

fun is_integer :: "json \<Rightarrow> bool" where
  "is_integer JNull = True"
| "is_integer (JInt i) = (- (2 ^ 63) \<le> i \<and> i < 2 ^ 63)"
| "is_integer v = False"

definition typed_field :: "(json \<Rightarrow> bool) \<Rightarrow> (string \<times> json) list \<Rightarrow> string \<Rightarrow> bool" where
  "typed_field ok kvs k = (case map_of kvs k of None \<Rightarrow> True | Some v \<Rightarrow> ok v)"


definition question_fields_typed :: "(string \<times> json) list \<Rightarrow> bool" where
  "question_fields_typed kvs \<longleftrightarrow>
     typed_field is_text kvs ''type''
     \<and> typed_field is_text kvs ''text''
     \<and> typed_field is_text kvs ''description''
     \<and> typed_field is_boolean kvs ''required''
     \<and> typed_field is_integer kvs ''order''"

section \<open>The error replies\<close>

definition unauthorized :: reply where
  "unauthorized = Json (JObj [(''error'', JStr ''Unauthorized'')]) 401"

definition forbidden :: reply where
  "forbidden = Json (JObj [(''error'', JStr ''Forbidden'')]) 403"

definition not_active :: reply where
  "not_active = Json (JObj [(''error'', JStr ''Survey is not active'')]) 400"

section \<open>Surveys\<close>

definition create_survey :: "lib \<Rightarrow> nat \<Rightarrow> request \<Rightarrow> db \<Rightarrow> reply \<times> db" where
  "create_survey L now req st =
     (case session_user_id req of
        None \<Rightarrow> (unauthorized, st)
      | Some user_id \<Rightarrow>
          (case get_json req of
             Inl code \<Rightarrow> (Abort code, st)
           | Inr data \<Rightarrow>
               (case data of
                  JObj kvs \<Rightarrow>
                    (case map_of kvs ''title'' of
                       None \<Rightarrow> (Raised (KeyError ''title''), st)
                     | Some title \<Rightarrow>
                         let new_survey =
                               \<lparr>sv_id = next_id (map sv_id (surveys st)),
                                sv_title = title,
                                sv_description = dict_get kvs ''description'' (JStr []),
                                sv_status = JStr ''draft'',
                                sv_created_at = now,
                                sv_updated_at = now,
                                sv_user_id = user_id\<rparr>
                         in if title = JNull then (Raised IntegrityError, st)
                            else (Json (JObj
                                    [(''id'', JInt (int (sv_id new_survey))),
                                     (''title'', sv_title new_survey),
                                     (''description'', sv_description new_survey),
                                     (''status'', sv_status new_survey),
                                     (''created_at'',
                                        JStr (isoformat L (sv_created_at new_survey)))]) 201,
                                  st\<lparr>surveys := surveys st @ [new_survey]\<rparr>))
                | _ \<Rightarrow> (Raised TypeError, st))))"

text \<open>The body of the loop of \<^verbatim>\<open>get_survey\<close> over \<^verbatim>\<open>survey.questions\<close>.\<close>

definition question_data :: "lib \<Rightarrow> question \<Rightarrow> exn + json" where
  "question_data L question =
     (let q_data =
            [(''id'', JInt (int (q_id question))),
             (''type'', q_type question),
             (''text'', q_text question),
             (''description'', q_description question),
             (''required'', q_required question),
             (''order'', q_order question)]
      in case q_options question of
           None \<Rightarrow> Inr (JObj q_data)
         | Some s \<Rightarrow>
             if s = [] then Inr (JObj q_data)
             else (case loads L s of
                     None \<Rightarrow> Inl JSONDecodeError
                   | Some v \<Rightarrow> Inr (JObj (q_data @ [(''options'', v)]))))"

fun questions_data :: "lib \<Rightarrow> question list \<Rightarrow> exn + json list" where
  "questions_data L [] = Inr []"
| "questions_data L (question # rest) =
     (case question_data L question of
        Inl e \<Rightarrow> Inl e
      | Inr q_data \<Rightarrow>
          (case questions_data L rest of
             Inl e \<Rightarrow> Inl e
           | Inr ds \<Rightarrow> Inr (q_data # ds)))"

definition get_survey :: "lib \<Rightarrow> request \<Rightarrow> nat \<Rightarrow> db \<Rightarrow> reply \<times> db" where
  "get_survey L req survey_id st =
     (case session_user_id req of
        None \<Rightarrow> (unauthorized, st)
      | Some user_id \<Rightarrow>
          (case get_survey_row st survey_id of
             None \<Rightarrow> (Abort 404, st)
           | Some survey \<Rightarrow>
               if sv_user_id survey \<noteq> user_id then (forbidden, st)
               else (case questions_data L (survey_questions st survey_id) of
                       Inl e \<Rightarrow> (Raised e, st)
                     | Inr qs \<Rightarrow>
                         (Json (JObj
                            [(''id'', JInt (int (sv_id survey))),
                             (''title'', sv_title survey),
                             (''description'', sv_description survey),
                             (''status'', sv_status survey),
                             (''created_at'', JStr (isoformat L (sv_created_at survey))),
                             (''updated_at'', JStr (isoformat L (sv_updated_at survey))),
                             (''questions'', JList qs)]) 200,
                          st))))"

text \<open>
  \<^verbatim>\<open>db.session.commit()\<close> rejects a row whose \<^verbatim>\<open>nullable=False\<close> column is
  \<^verbatim>\<open>None\<close>; the exception leaves the database as it was.
\<close>

definition update_survey :: "lib \<Rightarrow> nat \<Rightarrow> request \<Rightarrow> nat \<Rightarrow> db \<Rightarrow> reply \<times> db" where
  "update_survey L now req survey_id st =
     (case session_user_id req of
        None \<Rightarrow> (unauthorized, st)
      | Some user_id \<Rightarrow>
          (case get_survey_row st survey_id of
             None \<Rightarrow> (Abort 404, st)
           | Some survey \<Rightarrow>
               if sv_user_id survey \<noteq> user_id then (forbidden, st)
               else (case get_json req of
                       Inl code \<Rightarrow> (Abort code, st)
                     | Inr data \<Rightarrow>
                         (case data of
                            JObj kvs \<Rightarrow>
                              let survey' = survey
                                    \<lparr>sv_title := dict_get kvs ''title'' (sv_title survey),
                                     sv_description :=
                                       dict_get kvs ''description'' (sv_description survey),
                                     sv_status := dict_get kvs ''status'' (sv_status survey),
                                     sv_updated_at := now\<rparr>
                              in if sv_title survey' = JNull then (Raised IntegrityError, st)
                                 else (Json (JObj
                                         [(''id'', JInt (int (sv_id survey'))),
                                          (''title'', sv_title survey'),
                                          (''description'', sv_description survey'),
                                          (''status'', sv_status survey'),
                                          (''updated_at'',
                                             JStr (isoformat L (sv_updated_at survey')))]) 200,
                                       st\<lparr>surveys :=
                                            map (\<lambda>s. if sv_id s = survey_id then survey' else s)
                                              (surveys st)\<rparr>)
                          | _ \<Rightarrow> (Raised AttributeError, st)))))"

text \<open>
  \<^verbatim>\<open>db.session.delete(survey)\<close>. The relationship \<^verbatim>\<open>questions\<close> is declared with
  \<^verbatim>\<open>cascade="all, delete-orphan"\<close>: the survey's questions are deleted with it. The
  relationship \<^verbatim>\<open>responses\<close> is declared without a cascade: the unit of work
  detaches each response of the survey by setting its \<^verbatim>\<open>survey_id\<close> to \<^verbatim>\<open>NULL\<close>,
  which the column's \<^verbatim>\<open>nullable=False\<close> rejects, so the commit raises and nothing is
  deleted.
\<close>

definition delete_survey :: "request \<Rightarrow> nat \<Rightarrow> db \<Rightarrow> reply \<times> db" where
  "delete_survey req survey_id st =
     (case session_user_id req of
        None \<Rightarrow> (unauthorized, st)
      | Some user_id \<Rightarrow>
          (case get_survey_row st survey_id of
             None \<Rightarrow> (Abort 404, st)
           | Some survey \<Rightarrow>
               if sv_user_id survey \<noteq> user_id then (forbidden, st)
               else if survey_responses st survey_id \<noteq> [] then (Raised IntegrityError, st)
               else (Empty 204,
                     st\<lparr>surveys := filter (\<lambda>s. sv_id s \<noteq> survey_id) (surveys st),
                        questions :=
                          filter (\<lambda>q. q_survey_id q \<noteq> survey_id) (questions st)\<rparr>)))"

section \<open>Questions\<close>

text \<open>The dictionary both question handlers return.\<close>

definition question_reply :: "question \<Rightarrow> json \<Rightarrow> json" where
  "question_reply question opts =
     JObj [(''id'', JInt (int (q_id question))),
           (''type'', q_type question),
           (''text'', q_text question),
           (''description'', q_description question),
           (''required'', q_required question),
           (''options'', opts),
           (''order'', q_order question)]"

text \<open>
  \<^verbatim>\<open>data['type']\<close> raises \<^verbatim>\<open>KeyError\<close> on a dict without the key and
  \<^verbatim>\<open>TypeError\<close> on a value that is no dict. The reply is built after the commit, so
  an exception of \<^verbatim>\<open>json.loads\<close> there leaves the new row in the table.
\<close>

definition create_question :: "lib \<Rightarrow> request \<Rightarrow> nat \<Rightarrow> db \<Rightarrow> reply \<times> db" where
  "create_question L req survey_id st =
     (case session_user_id req of
        None \<Rightarrow> (unauthorized, st)
      | Some user_id \<Rightarrow>
          (case get_survey_row st survey_id of
             None \<Rightarrow> (Abort 404, st)
           | Some survey \<Rightarrow>
               if sv_user_id survey \<noteq> user_id then (forbidden, st)
               else (case get_json req of
                       Inl code \<Rightarrow> (Abort code, st)
                     | Inr data \<Rightarrow>
                         (case data of
                            JObj kvs \<Rightarrow>
                              (case map_of kvs ''type'' of
                                 None \<Rightarrow> (Raised (KeyError ''type''), st)
                               | Some ty \<Rightarrow>
                                   (case map_of kvs ''text'' of
                                      None \<Rightarrow> (Raised (KeyError ''text''), st)
                                    | Some tx \<Rightarrow>
                                        let new_question =
                                              \<lparr>q_id = next_id (map q_id (questions st)),
                                               q_survey_id = survey_id,
                                               q_type = ty,
                                               q_text = tx,
                                               q_description =
                                                 dict_get kvs ''description'' (JStr []),
                                               q_required =
                                                 dict_get kvs ''required'' (JBool False),
                                               q_options =
                                                 Some (dumps L
                                                   (dict_get kvs ''options'' (JList []))),
                                               q_order = dict_get kvs ''order'' (JInt 0)\<rparr>;
                                            st' = st\<lparr>questions :=
                                                       questions st @ [new_question]\<rparr>
                                        in if ty = JNull \<or> tx = JNull
                                           then (Raised IntegrityError, st)
                                           else (case loads_or_empty L (q_options new_question) of
                                                   None \<Rightarrow> (Raised JSONDecodeError, st')
                                                 | Some opts \<Rightarrow>
                                                     (Json (question_reply new_question opts) 201,
                                                      st'))))
                          | _ \<Rightarrow> (Raised TypeError, st)))))"

text \<open>
  The question handlers reach the owner through \<^verbatim>\<open>question.survey.user_id\<close>; a
  question whose survey row is gone has \<^verbatim>\<open>question.survey = None\<close>. The default of
  \<^verbatim>\<open>data.get('options', ...)\<close> is computed whether or not the key is there.
\<close>

definition update_question :: "lib \<Rightarrow> request \<Rightarrow> nat \<Rightarrow> db \<Rightarrow> reply \<times> db" where
  "update_question L req question_id st =
     (case session_user_id req of
        None \<Rightarrow> (unauthorized, st)
      | Some user_id \<Rightarrow>
          (case get_question_row st question_id of
             None \<Rightarrow> (Abort 404, st)
           | Some question \<Rightarrow>
               (case get_survey_row st (q_survey_id question) of
                  None \<Rightarrow> (Raised AttributeError, st)
                | Some survey \<Rightarrow>
                    if sv_user_id survey \<noteq> user_id then (forbidden, st)
                    else (case get_json req of
                            Inl code \<Rightarrow> (Abort code, st)
                          | Inr data \<Rightarrow>
                              (case data of
                                 JObj kvs \<Rightarrow>
                                   (case loads_or_empty L (q_options question) of
                                      None \<Rightarrow> (Raised JSONDecodeError, st)
                                    | Some old_opts \<Rightarrow>
                                        let question' = question
                                              \<lparr>q_type := dict_get kvs ''type'' (q_type question),
                                               q_text := dict_get kvs ''text'' (q_text question),
                                               q_description :=
                                                 dict_get kvs ''description''
                                                   (q_description question),
                                               q_required :=
                                                 dict_get kvs ''required'' (q_required question),
                                               q_options :=
                                                 Some (dumps L
                                                   (dict_get kvs ''options'' old_opts)),
                                               q_order :=
                                                 dict_get kvs ''order'' (q_order question)\<rparr>;
                                            st' = st\<lparr>questions :=
                                                       map (\<lambda>q. if q_id q = question_id
                                                                then question' else q)
                                                         (questions st)\<rparr>
                                        in if q_type question' = JNull \<or> q_text question' = JNull
                                           then (Raised IntegrityError, st)
                                           else (case loads_or_empty L (q_options question') of
                                                   None \<Rightarrow> (Raised JSONDecodeError, st')
                                                 | Some opts \<Rightarrow>
                                                     (Json (question_reply question' opts) 200,
                                                      st')))
                               | _ \<Rightarrow> (Raised AttributeError, st))))))"

definition delete_question :: "request \<Rightarrow> nat \<Rightarrow> db \<Rightarrow> reply \<times> db" where
  "delete_question req question_id st =
     (case session_user_id req of
        None \<Rightarrow> (unauthorized, st)
      | Some user_id \<Rightarrow>
          (case get_question_row st question_id of
             None \<Rightarrow> (Abort 404, st)
           | Some question \<Rightarrow>
               (case get_survey_row st (q_survey_id question) of
                  None \<Rightarrow> (Raised AttributeError, st)
                | Some survey \<Rightarrow>
                    if sv_user_id survey \<noteq> user_id then (forbidden, st)
                    else (Empty 204,
                          st\<lparr>questions :=
                               filter (\<lambda>q. q_id q \<noteq> question_id) (questions st)\<rparr>))))"

section \<open>Submitting responses\<close>

definition submit_response :: "lib \<Rightarrow> nat \<Rightarrow> request \<Rightarrow> nat \<Rightarrow> db \<Rightarrow> reply \<times> db" where
  "submit_response L now req survey_id st =
     (case get_survey_row st survey_id of
        None \<Rightarrow> (Abort 404, st)
      | Some survey \<Rightarrow>
          if sv_status survey \<noteq> JStr ''active'' then (not_active, st)
          else (case get_json req of
                  Inl code \<Rightarrow> (Abort code, st)
                | Inr data \<Rightarrow>
                    let new_response =
                          \<lparr>r_id = next_id (map r_id (responses st)),
                           r_survey_id = survey_id,
                           r_user_id = session_user_id req,
                           r_response_data = Some (dumps L data),
                           r_created_at = now\<rparr>
                    in (Json (JObj [(''id'', JInt (int (r_id new_response)))]) 201,
                        st\<lparr>responses := responses st @ [new_response]\<rparr>)))"

section \<open>A library instance for running the handlers\<close>

text \<open>
  A printer and a reader of JSON text to put in the place of the library parameter when
  a handler is run on concrete data. The printer lays its output out as
  \<^verbatim>\<open>json.dumps\<close> does (\<^verbatim>\<open>", "\<close> between items, \<^verbatim>\<open>": "\<close> after a key) and
  escapes the quote and the backslash; the time stamp is printed as a number.
\<close>

fun show_nat :: "nat \<Rightarrow> string" where
  "show_nat n =
     (if n < 10 then [char_of (48 + n)]
      else show_nat (n div 10) @ [char_of (48 + n mod 10)])"

declare show_nat.simps [simp del]

definition show_int :: "int \<Rightarrow> string" where
  "show_int i = (if i < 0 then CHR ''-'' # show_nat (nat (- i)) else show_nat (nat i))"

fun escape :: "string \<Rightarrow> string" where
  "escape [] = []"
| "escape (c # cs) =
     (if c = CHR 0x22 \<or> c = CHR 0x5C then CHR 0x5C # c # escape cs else c # escape cs)"

definition quote :: "string \<Rightarrow> string" where
  "quote s = CHR 0x22 # escape s @ [CHR 0x22]"

fun join :: "string list \<Rightarrow> string" where
  "join [] = []"
| "join [x] = x"
| "join (x # y # ys) = x @ '', '' @ join (y # ys)"

fun ref_dumps :: "json \<Rightarrow> string" where
  "ref_dumps JNull = ''null''"
| "ref_dumps (JBool b) = (if b then ''true'' else ''false'')"
| "ref_dumps (JInt i) = show_int i"
| "ref_dumps (JStr s) = quote s"
| "ref_dumps (JList vs) = ''['' @ join (map ref_dumps vs) @ '']''"
| "ref_dumps (JObj kvs) =
     ''{'' @ join (map (\<lambda>(k, v). quote k @ '': '' @ ref_dumps v) kvs) @ ''}''"

definition is_digit :: "char \<Rightarrow> bool" where
  "is_digit c = ((48::nat) \<le> of_char c \<and> (of_char c :: nat) \<le> 57)"

fun read_nat :: "nat \<Rightarrow> string \<Rightarrow> nat \<times> string" where
  "read_nat acc [] = (acc, [])"
| "read_nat acc (c # cs) =
     (if is_digit c then read_nat (10 * acc + ((of_char c :: nat) - 48)) cs
      else (acc, c # cs))"

fun read_string :: "string \<Rightarrow> (string \<times> string) option" where
  "read_string [] = None"
| "read_string (c # cs) =
     (if c = CHR 0x22 then Some ([], cs)
      else if c = CHR 0x5C then
        (case cs of
           [] \<Rightarrow> None
         | d # ds \<Rightarrow> map_option (\<lambda>(s, r). (d # s, r)) (read_string ds))
      else map_option (\<lambda>(s, r). (c # s, r)) (read_string cs))"

definition skip_ws :: "string \<Rightarrow> string" where
  "skip_ws s = dropWhile (\<lambda>c. c = CHR '' '') s"

text \<open>
  The reader descends through lists and objects; its first argument bounds the number
  of nested calls and is set to the length of the text by \<open>ref_loads\<close>.
\<close>

fun read_value :: "nat \<Rightarrow> string \<Rightarrow> (json \<times> string) option"
  and read_items :: "nat \<Rightarrow> string \<Rightarrow> (json list \<times> string) option"
  and read_members :: "nat \<Rightarrow> string \<Rightarrow> ((string \<times> json) list \<times> string) option" where
  "read_value 0 s = None"
| "read_value (Suc n) s =
     (case skip_ws s of
        [] \<Rightarrow> None
      | c # cs \<Rightarrow>
          if c = CHR 0x22 then map_option (\<lambda>(t, r). (JStr t, r)) (read_string cs)
          else if c = CHR ''['' then
            (case skip_ws cs of
               [] \<Rightarrow> None
             | d # ds \<Rightarrow> if d = CHR '']'' then Some (JList [], ds)
                         else map_option (\<lambda>(vs, r). (JList vs, r)) (read_items n cs))
          else if c = CHR ''{'' then
            (case skip_ws cs of
               [] \<Rightarrow> None
             | d # ds \<Rightarrow> if d = CHR ''}'' then Some (JObj [], ds)
                         else map_option (\<lambda>(kvs, r). (JObj kvs, r)) (read_members n cs))
          else if c = CHR ''-'' then
            (case cs of
               [] \<Rightarrow> None
             | d # ds \<Rightarrow> if is_digit d
                         then (case read_nat 0 cs of (k, r) \<Rightarrow> Some (JInt (- int k), r))
                         else None)
          else if is_digit c then
            (case read_nat 0 (c # cs) of (k, r) \<Rightarrow> Some (JInt (int k), r))
          else if take 4 (c # cs) = ''null'' then Some (JNull, drop 4 (c # cs))
          else if take 4 (c # cs) = ''true'' then Some (JBool True, drop 4 (c # cs))
          else if take 5 (c # cs) = ''false'' then Some (JBool False, drop 5 (c # cs))
          else None)"
| "read_items 0 s = None"
| "read_items (Suc n) s =
     (case read_value n s of
        None \<Rightarrow> None
      | Some (v, r) \<Rightarrow>
          (case skip_ws r of
             [] \<Rightarrow> None
           | c # cs \<Rightarrow>
               if c = CHR '']'' then Some ([v], cs)
               else if c = CHR '','' then
                 map_option (\<lambda>(vs, r'). (v # vs, r')) (read_items n cs)
               else None))"
| "read_members 0 s = None"
| "read_members (Suc n) s =
     (case skip_ws s of
        [] \<Rightarrow> None
      | q # s1 \<Rightarrow>
          if q \<noteq> CHR 0x22 then None
          else (case read_string s1 of
                  None \<Rightarrow> None
                | Some (k, s2) \<Rightarrow>
                    (case skip_ws s2 of
                       [] \<Rightarrow> None
                     | c # s3 \<Rightarrow>
                         if c \<noteq> CHR '':'' then None
                         else (case read_value n s3 of
                                 None \<Rightarrow> None
                               | Some (v, s4) \<Rightarrow>
                                   (case skip_ws s4 of
                                      [] \<Rightarrow> None
                                    | e # s5 \<Rightarrow>
                                        if e = CHR ''}'' then Some ([(k, v)], s5)
                                        else if e = CHR '','' then
                                          map_option (\<lambda>(kvs, r'). ((k, v) # kvs, r'))
                                            (read_members n s5)
                                        else None)))))"

definition ref_loads :: "string \<Rightarrow> json option" where
  "ref_loads s =
     (case read_value (Suc (length s)) s of
        None \<Rightarrow> None
      | Some (v, r) \<Rightarrow> if skip_ws r = [] then Some v else None)"

text \<open>
  Two notions for reasoning about the reader: text after which a number ends, and a
  character that can start a printed value.
\<close>

definition stops :: "string \<Rightarrow> bool" where
  "stops rest \<longleftrightarrow> (case rest of [] \<Rightarrow> True | c # cs \<Rightarrow> \<not> is_digit c)"

definition opener :: "char \<Rightarrow> bool" where
  "opener c \<longleftrightarrow> c \<noteq> CHR '' '' \<and> c \<noteq> CHR '']'' \<and> c \<noteq> CHR ''}''"

definition ref_lib :: lib where
  "ref_lib = \<lparr>dumps = ref_dumps, loads = ref_loads, isoformat = show_nat\<rparr>"

section \<open>A scenario\<close>

text \<open>
  User 1 owns the survey "Q1 Feedback" with one single-choice question; user 2 owns
  nothing. The survey is active in \<open>active_store\<close> and closed in \<open>closed_store\<close>.
\<close>

definition feedback_survey :: "json \<Rightarrow> survey" where
  "feedback_survey status =
     \<lparr>sv_id = 1, sv_title = JStr ''Q1 Feedback'', sv_description = JStr [],
      sv_status = status, sv_created_at = 10, sv_updated_at = 12, sv_user_id = 1\<rparr>"

definition satisfied_question :: question where
  "satisfied_question =
     \<lparr>q_id = 1, q_survey_id = 1, q_type = JStr ''single_choice'',
      q_text = JStr ''Satisfied?'', q_description = JStr [], q_required = JBool False,
      q_options = Some (ref_dumps (JList [JStr ''Yes'', JStr ''No''])),
      q_order = JInt 0\<rparr>"

definition active_store :: db where
  "active_store =
     \<lparr>surveys = [feedback_survey (JStr ''active'')],
      questions = [satisfied_question],
      responses = []\<rparr>"

definition closed_store :: db where
  "closed_store =
     \<lparr>surveys = [feedback_survey (JStr ''closed'')],
      questions = [satisfied_question],
      responses = []\<rparr>"

definition anonymous :: "json \<Rightarrow> request" where
  "anonymous data = \<lparr>session_user_id = None, get_json = Inr data\<rparr>"

definition logged_in :: "nat \<Rightarrow> json \<Rightarrow> request" where
  "logged_in user_id data = \<lparr>session_user_id = Some user_id, get_json = Inr data\<rparr>"

text \<open>
  Further states of the scenario: the database before anything was created; the active
  survey after an anonymous respondent answered "Yes"; the active survey after its owner
  added a second question that is to be shown first (\<^verbatim>\<open>order\<close> \<open>-1\<close>).
\<close>

definition empty_db :: db where
  "empty_db = \<lparr>surveys = [], questions = [], responses = []\<rparr>"

definition yes_response :: response where
  "yes_response =
     \<lparr>r_id = 1, r_survey_id = 1, r_user_id = None,
      r_response_data = Some (ref_dumps (JObj [(''1'', JStr ''Yes'')])),
      r_created_at = 15\<rparr>"

definition answered_store :: db where
  "answered_store = active_store\<lparr>responses := [yes_response]\<rparr>"

definition sooner_question :: question where
  "sooner_question =
     \<lparr>q_id = 2, q_survey_id = 1, q_type = JStr ''text'', q_text = JStr ''Why?'',
      q_description = JStr [], q_required = JBool False, q_options = Some (ref_dumps (JList [])),
      q_order = JInt (- 1)\<rparr>"

definition reordered_store :: db where
  "reordered_store = active_store\<lparr>questions := [satisfied_question, sooner_question]\<rparr>"

section \<open>What the specification asks\<close>

text \<open>
  What the ownership rule asks of the outcome \<open>out\<close> of a handler run in database
  \<open>st\<close> by \<open>caller\<close> on an entity owned by \<open>owner\<close>: without an identity the reply is
  401 and nothing is written; with another user's identity the reply is 403 and nothing
  is written; the handler gets past both replies exactly when the caller is the owner.
\<close>

definition owner_guarded :: "nat option \<Rightarrow> nat \<Rightarrow> db \<Rightarrow> reply \<times> db \<Rightarrow> bool" where
  "owner_guarded caller owner st out \<longleftrightarrow>
     (caller = None \<longrightarrow> out = (unauthorized, st))
     \<and> (\<forall>u. caller = Some u \<and> u \<noteq> owner \<longrightarrow> out = (forbidden, st))
     \<and> (fst out \<noteq> unauthorized \<and> fst out \<noteq> forbidden \<longleftrightarrow> caller = Some owner)"


definition spec_choice_like :: "string \<Rightarrow> bool" where
  "spec_choice_like t \<longleftrightarrow> t \<in> {''single_choice'', ''multi_choice'', ''dropdown''}"

text \<open>
  The \<^verbatim>\<open>questions\<close> list of a reply of \<^verbatim>\<open>get_survey\<close>, a field of one of its
  entries, and the order the specification asks of the list: by \<^verbatim>\<open>order\<close>, ties by
  \<^verbatim>\<open>id\<close>.
\<close>

definition listed_questions :: "reply \<Rightarrow> json list" where
  "listed_questions r =
     (case r of
        Json (JObj kvs) code \<Rightarrow>
          (case map_of kvs ''questions'' of Some (JList qs) \<Rightarrow> qs | _ \<Rightarrow> [])
      | _ \<Rightarrow> [])"

definition entry :: "string \<Rightarrow> json \<Rightarrow> json option" where
  "entry k d = (case d of JObj kvs \<Rightarrow> map_of kvs k | _ \<Rightarrow> None)"

definition entry_key :: "json \<Rightarrow> (int \<times> int) option" where
  "entry_key d =
     (case (entry ''order'' d, entry ''id'' d) of
        (Some (JInt ord), Some (JInt ident)) \<Rightarrow> Some (ord, ident)
      | _ \<Rightarrow> None)"

definition order_id_le :: "int \<times> int \<Rightarrow> int \<times> int \<Rightarrow> bool" where
  "order_id_le a b \<longleftrightarrow> fst a < fst b \<or> (fst a = fst b \<and> snd a \<le> snd b)"

definition by_order_then_id :: "json list \<Rightarrow> bool" where
  "by_order_then_id ds =
     (case those (map entry_key ds) of
        None \<Rightarrow> False
      | Some keys \<Rightarrow> sorted_wrt order_id_le keys)"

section \<open>The order of the rows\<close>

text \<open>
  Every table is in the order of its primary keys. The empty database is, and every
  handler keeps it so, since a new row gets a key above all others.
\<close>

definition keys_ascending :: "db \<Rightarrow> bool" where
  "keys_ascending st \<longleftrightarrow>
     sorted_wrt (<) (map sv_id (surveys st))
     \<and> sorted_wrt (<) (map q_id (questions st))
     \<and> sorted_wrt (<) (map r_id (responses st))"

section \<open>Properties\<close>

subsection \<open>The library instance reads back what it prints\<close>

lemma stops_simps [simp]:
  "stops []" "stops (c # cs) \<longleftrightarrow> \<not> is_digit c"
  by (simp_all add: stops_def)

lemma is_digit_char_of: "d < 10 \<Longrightarrow> is_digit (char_of (48 + d :: nat))"
  by (simp add: is_digit_def)

lemma read_nat_stop: "stops rest \<Longrightarrow> read_nat acc rest = (acc, rest)"
  by (cases rest) simp_all

lemma read_nat_show_nat:
  "read_nat acc (show_nat n @ rest) = read_nat (acc * 10 ^ length (show_nat n) + n) rest"
proof (induction n arbitrary: acc rest rule: show_nat.induct)
  case (1 n)
  show ?case
  proof (cases "n < 10")
    case True
    then show ?thesis
      by (simp add: show_nat.simps [of n] is_digit_char_of mult.commute)
  next
    case False
    have d: "n mod 10 < 10" by simp
    have "read_nat acc (show_nat n @ rest)
        = read_nat acc (show_nat (n div 10) @ char_of (48 + n mod 10) # rest)"
      using False by (simp add: show_nat.simps [of n])
    also have "\<dots> = read_nat (acc * 10 ^ length (show_nat (n div 10)) + n div 10)
                        (char_of (48 + n mod 10) # rest)"
      by (rule "1.IH" [OF False])
    also have "\<dots> = read_nat (10 * (acc * 10 ^ length (show_nat (n div 10)) + n div 10)
                          + n mod 10) rest"
      using is_digit_char_of [OF d] by simp
    also have "10 * (acc * 10 ^ length (show_nat (n div 10)) + n div 10) + n mod 10
        = acc * 10 ^ length (show_nat n) + n"
      using False by (simp add: show_nat.simps [of n] algebra_simps)
    finally show ?thesis .
  qed
qed

lemma show_nat_first: "\<exists>c cs. show_nat n = c # cs \<and> is_digit c"
proof (induction n rule: show_nat.induct)
  case (1 n)
  show ?case
  proof (cases "n < 10")
    case True
    then show ?thesis
      by (simp add: show_nat.simps [of n] is_digit_char_of)
  next
    case False
    with "1.IH" obtain c cs where "show_nat (n div 10) = c # cs" "is_digit c"
      by blast
    with False show ?thesis
      by (simp add: show_nat.simps [of n])
  qed
qed

lemma read_string_escape: "read_string (escape s @ CHR 0x22 # rest) = Some (s, rest)"
  by (induction s) simp_all

lemma read_value_space: "read_value n (CHR '' '' # s) = read_value n s"
  by (cases n) (simp_all add: skip_ws_def)

lemma read_items_space: "read_items n (CHR '' '' # s) = read_items n s"
  by (cases n) (simp_all add: read_value_space)

lemma read_members_space: "read_members n (CHR '' '' # s) = read_members n s"
  by (cases n) (simp_all add: skip_ws_def)

lemma is_digit_not:
  "is_digit c \<Longrightarrow> c \<noteq> CHR '' '' \<and> c \<noteq> CHR 0x22 \<and> c \<noteq> CHR ''['' \<and> c \<noteq> CHR '']''
     \<and> c \<noteq> CHR ''{'' \<and> c \<noteq> CHR ''}'' \<and> c \<noteq> CHR ''-'' \<and> c \<noteq> CHR '','' \<and> c \<noteq> CHR '':''"
  by (auto simp: is_digit_def)

lemma ref_dumps_first: "\<exists>c cs. ref_dumps v = c # cs \<and> opener c"
proof (cases v)
  case (JInt i)
  obtain c cs where "show_nat (nat (if i < 0 then - i else i)) = c # cs" "is_digit c"
    using show_nat_first by blast
  then show ?thesis
    using JInt is_digit_not [of c] by (auto simp: show_int_def opener_def)
qed (auto simp: opener_def quote_def)

lemma skip_ws_opener: "opener c \<Longrightarrow> skip_ws (c # cs) = c # cs"
  by (simp add: skip_ws_def opener_def)

lemma read_items_dumps:
  assumes "\<And>x n rest. x \<in> set vs \<Longrightarrow> length (ref_dumps x) \<le> n \<Longrightarrow> stops rest \<Longrightarrow>
             read_value n (ref_dumps x @ rest) = Some (x, rest)"
    and "vs \<noteq> []"
    and "length (join (map ref_dumps vs)) < m"
  shows "read_items m (join (map ref_dumps vs) @ CHR '']'' # rest) = Some (vs, rest)"
  using assms
proof (induction vs arbitrary: m)
  case Nil
  then show ?case by simp
next
  case (Cons v vs)
  from Cons.prems(3) obtain m' where m: "m = Suc m'"
    by (cases m) simp_all
  show ?case
  proof (cases vs)
    case Nil
    have "length (ref_dumps v) \<le> m'"
      using Cons.prems(3) Nil m by simp
    then have "read_value m' (ref_dumps v @ CHR '']'' # rest) = Some (v, CHR '']'' # rest)"
      using Cons.prems(1) [of v m' "CHR '']'' # rest"] by (simp add: is_digit_def)
    then show ?thesis
      using Nil m by (simp add: skip_ws_def)
  next
    case (Cons w ws)
    let ?tail = "join (map ref_dumps vs) @ CHR '']'' # rest"
    have len: "length (ref_dumps v) \<le> m'" "length (join (map ref_dumps vs)) < m'"
      using Cons.prems(3) Cons m by simp_all
    have "read_value m' (ref_dumps v @ CHR '','' # CHR '' '' # ?tail)
            = Some (v, CHR '','' # CHR '' '' # ?tail)"
      using Cons.prems(1) [of v m' "CHR '','' # CHR '' '' # ?tail"] len(1)
      by (simp add: is_digit_def)
    moreover have "read_items m' ?tail = Some (vs, rest)"
      using Cons.IH [of m'] Cons.prems(1) len(2) Cons by simp
    ultimately show ?thesis
      using Cons m by (simp add: skip_ws_def read_items_space)
  qed
qed

lemma read_members_dumps:
  assumes "\<And>k x n rest. (k, x) \<in> set kvs \<Longrightarrow> length (ref_dumps x) \<le> n \<Longrightarrow> stops rest \<Longrightarrow>
             read_value n (ref_dumps x @ rest) = Some (x, rest)"
    and "kvs \<noteq> []"
    and "length (join (map (\<lambda>(k, v). quote k @ '': '' @ ref_dumps v) kvs)) < m"
  shows "read_members m
           (join (map (\<lambda>(k, v). quote k @ '': '' @ ref_dumps v) kvs) @ CHR ''}'' # rest)
         = Some (kvs, rest)"
  using assms
proof (induction kvs arbitrary: m)
  case Nil
  then show ?case by simp
next
  case (Cons kv kvs)
  obtain k v where kv: "kv = (k, v)"
    by (cases kv)
  from Cons.prems(3) obtain m' where m: "m = Suc m'"
    by (cases m) simp_all
  show ?case
  proof (cases kvs)
    case Nil
    have "length (ref_dumps v) \<le> m'"
      using Cons.prems(3) Nil m kv by simp
    then have "read_value m' (ref_dumps v @ CHR ''}'' # rest) = Some (v, CHR ''}'' # rest)"
      using Cons.prems(1) [of k v m' "CHR ''}'' # rest"] kv by (simp add: is_digit_def)
    then show ?thesis
      using Nil m kv
      by (simp add: skip_ws_def quote_def read_string_escape read_value_space)
  next
    case (Cons kw kws)
    let ?tail = "join (map (\<lambda>(k, v). quote k @ '': '' @ ref_dumps v) kvs) @ CHR ''}'' # rest"
    have len: "length (ref_dumps v) \<le> m'"
      "length (join (map (\<lambda>(k, v). quote k @ '': '' @ ref_dumps v) kvs)) < m'"
      using Cons.prems(3) Cons m kv by simp_all
    have "read_value m' (ref_dumps v @ CHR '','' # CHR '' '' # ?tail)
            = Some (v, CHR '','' # CHR '' '' # ?tail)"
      using Cons.prems(1) [of k v m' "CHR '','' # CHR '' '' # ?tail"] len(1) kv
      by (simp add: is_digit_def)
    moreover have "read_members m' ?tail = Some (kvs, rest)"
    proof (rule Cons.IH)
      show "kvs \<noteq> []" using Cons by simp
      show "length (join (map (\<lambda>(k, v). quote k @ '': '' @ ref_dumps v) kvs)) < m'"
        by (rule len(2))
    next
      fix k' x n r
      assume "(k', x) \<in> set kvs" "length (ref_dumps x) \<le> n" "stops r"
      then show "read_value n (ref_dumps x @ r) = Some (x, r)"
        using Cons.prems(1) [of k' x n r] by simp
    qed
    ultimately show ?thesis
      using Cons m kv
      by (simp add: skip_ws_def quote_def read_string_escape read_value_space
          read_members_space)
  qed
qed

lemma read_value_dumps:
  "length (ref_dumps v) \<le> n \<Longrightarrow> stops rest \<Longrightarrow>
   read_value n (ref_dumps v @ rest) = Some (v, rest)"
proof (induction v arbitrary: n rest)
  case JNull
  then obtain n' where "n = Suc n'"
    by (cases n) simp_all
  then show ?case
    by (simp add: skip_ws_def is_digit_def)
next
  case (JBool b)
  then obtain n' where "n = Suc n'"
    by (cases n) (simp_all split: if_splits)
  then show ?case
    by (simp add: skip_ws_def is_digit_def)
next
  case (JInt i)
  obtain n' where n: "n = Suc n'"
    using JInt.prems(1) show_nat_first [of "nat (- i)"] show_nat_first [of "nat i"]
    by (cases n) (auto simp: show_int_def split: if_splits)
  show ?case
  proof (cases "i < 0")
    case True
    obtain c cs where c: "show_nat (nat (- i)) = c # cs" "is_digit c"
      using show_nat_first by blast
    have "read_nat 0 (show_nat (nat (- i)) @ rest) = (nat (- i), rest)"
      using JInt.prems(2) by (simp add: read_nat_show_nat read_nat_stop)
    then have "read_nat 0 (c # cs @ rest) = (nat (- i), rest)"
      using c(1) by simp
    then show ?thesis
      using True n c unfolding ref_dumps.simps show_int_def read_value.simps
      by (simp add: skip_ws_def del: read_nat.simps)
  next
    case False
    obtain c cs where c: "show_nat (nat i) = c # cs" "is_digit c"
      using show_nat_first by blast
    have "read_nat 0 (show_nat (nat i) @ rest) = (nat i, rest)"
      using JInt.prems(2) by (simp add: read_nat_show_nat read_nat_stop)
    then have "read_nat 0 (c # cs @ rest) = (nat i, rest)"
      using c(1) by simp
    then show ?thesis
      using False n c is_digit_not [OF c(2)]
      unfolding ref_dumps.simps show_int_def read_value.simps
      by (simp add: skip_ws_def del: read_nat.simps)
  qed
next
  case (JStr s)
  then obtain n' where "n = Suc n'"
    by (cases n) (simp_all add: quote_def)
  then show ?case
    by (simp add: skip_ws_def quote_def read_string_escape)
next
  case (JList vs)
  from JList.prems(1) obtain n' where n: "n = Suc n'"
    by (cases n) simp_all
  show ?case
  proof (cases vs)
    case Nil
    then show ?thesis
      using n by (simp add: skip_ws_def)
  next
    case (Cons w ws)
    obtain c cs where c: "ref_dumps w = c # cs" "opener c"
      using ref_dumps_first by blast
    have first: "\<exists>cs'. join (map ref_dumps vs) @ CHR '']'' # rest = c # cs'"
      using Cons c(1) by (cases ws) simp_all
    have "read_items n' (join (map ref_dumps vs) @ CHR '']'' # rest) = Some (vs, rest)"
    proof (rule read_items_dumps)
      show "vs \<noteq> []" using Cons by simp
      show "length (join (map ref_dumps vs)) < n'"
        using JList.prems(1) n by simp
    qed (rule JList.IH)
    then show ?thesis
      using n first c(2)
      by (auto simp: skip_ws_def opener_def)
  qed
next
  case (JObj kvs)
  from JObj.prems(1) obtain n' where n: "n = Suc n'"
    by (cases n) simp_all
  let ?text = "join (map (\<lambda>(k, v). quote k @ '': '' @ ref_dumps v) kvs)"
  show ?case
  proof (cases kvs)
    case Nil
    then show ?thesis
      using n by (simp add: skip_ws_def)
  next
    case (Cons kw kws)
    have first: "\<exists>cs'. ?text @ CHR ''}'' # rest = CHR 0x22 # cs'"
      using Cons by (cases kw; cases kws) (simp_all add: quote_def)
    have "read_members n' (?text @ CHR ''}'' # rest) = Some (kvs, rest)"
    proof (rule read_members_dumps)
      show "kvs \<noteq> []" using Cons by simp
      show "length ?text < n'"
        using JObj.prems(1) n by simp
    next
      fix k x m r
      assume "(k, x) \<in> set kvs" "length (ref_dumps x) \<le> m" "stops r"
      then show "read_value m (ref_dumps x @ r) = Some (x, r)"
        using JObj.IH [of "(k, x)" x m r] by simp
    qed
    then show ?thesis
      using n first
      by (auto simp: skip_ws_def)
  qed
qed

lemma ref_loads_dumps: "ref_loads (ref_dumps v) = Some v"
  using read_value_dumps [of v "Suc (length (ref_dumps v))" "[]"]
  by (simp add: ref_loads_def skip_ws_def)

lemma ref_dumps_not_empty: "ref_dumps v \<noteq> []"
  using ref_dumps_first [of v] by auto

lemma ref_lib_round_trip:
  "loads ref_lib (dumps ref_lib v) = Some v" "dumps ref_lib v \<noteq> []"
  by (simp_all add: ref_lib_def ref_loads_dumps ref_dumps_not_empty)

subsection \<open>The scenario's rows\<close>

lemma active_store_survey:
  "get_survey_row active_store 1 = Some (feedback_survey (JStr ''active''))"
  by (simp add: get_survey_row_def active_store_def feedback_survey_def)

lemma active_store_question: "get_question_row active_store 1 = Some satisfied_question"
  by (simp add: get_question_row_def active_store_def satisfied_question_def)

lemma satisfied_question_parent: "q_survey_id satisfied_question = 1"
  by (simp add: satisfied_question_def)

lemma active_status: "sv_status (feedback_survey (JStr ''active'')) = JStr ''active''"
  by (simp add: feedback_survey_def)

lemma ref_lib_yes:
  "loads ref_lib (dumps ref_lib (JObj [(''1'', JStr ''Yes'')])) = Some (JObj [(''1'', JStr ''Yes'')])"
  by (rule ref_lib_round_trip)

lemma feedback_survey_owner: "sv_user_id (feedback_survey status) = 1"
  by (simp add: feedback_survey_def)

subsection \<open>Ownership\<close>

lemma guard_get_survey:
  "get_survey_row st sid = Some survey \<Longrightarrow>
   owner_guarded (session_user_id req) (sv_user_id survey) st (get_survey L req sid st)"
  by (auto simp: owner_guarded_def get_survey_def unauthorized_def forbidden_def
      split: option.splits sum.splits)

lemma guard_update_survey:
  "get_survey_row st sid = Some survey \<Longrightarrow>
   owner_guarded (session_user_id req) (sv_user_id survey) st (update_survey L now req sid st)"
  by (auto simp: owner_guarded_def update_survey_def unauthorized_def forbidden_def Let_def
      split: option.splits sum.splits json.splits)

lemma guard_delete_survey:
  "get_survey_row st sid = Some survey \<Longrightarrow>
   owner_guarded (session_user_id req) (sv_user_id survey) st (delete_survey req sid st)"
  by (auto simp: owner_guarded_def delete_survey_def unauthorized_def forbidden_def
      split: option.splits)

lemma guard_create_question:
  "get_survey_row st sid = Some survey \<Longrightarrow>
   owner_guarded (session_user_id req) (sv_user_id survey) st (create_question L req sid st)"
  by (auto simp: owner_guarded_def create_question_def unauthorized_def forbidden_def Let_def
      split: option.splits sum.splits json.splits)

lemma guard_update_question:
  "get_question_row st qid = Some question \<Longrightarrow>
   get_survey_row st (q_survey_id question) = Some survey \<Longrightarrow>
   owner_guarded (session_user_id req) (sv_user_id survey) st (update_question L req qid st)"
  by (auto simp: owner_guarded_def update_question_def unauthorized_def forbidden_def Let_def
      split: option.splits sum.splits json.splits)

lemma guard_delete_question:
  "get_question_row st qid = Some question \<Longrightarrow>
   get_survey_row st (q_survey_id question) = Some survey \<Longrightarrow>
   owner_guarded (session_user_id req) (sv_user_id survey) st (delete_question req qid st)"
  by (auto simp: owner_guarded_def delete_question_def unauthorized_def forbidden_def
      split: option.splits)

text \<open>
  Claim C1. The 401 and the 403 reply differ, and a caller without identity gets the 401
  from each of the six handlers before any row is looked up. For a survey that exists, \<^verbatim>\<open>get_survey\<close>,
  \<^verbatim>\<open>update_survey\<close>, \<^verbatim>\<open>delete_survey\<close> and \<^verbatim>\<open>create_question\<close> answer 401 to a
  caller without identity and 403 to a caller who is not the survey's owner, writing
  nothing, and get past both replies if and only if the caller is the owner. For a
  question that exists, \<^verbatim>\<open>update_question\<close> and \<^verbatim>\<open>delete_question\<close> do the same
  with the owner of the question's survey.
\<close>

theorem owner_only_operations:
  "unauthorized \<noteq> forbidden
   \<and> (session_user_id req = None \<longrightarrow>
        get_survey L req sid st = (unauthorized, st)
        \<and> update_survey L now req sid st = (unauthorized, st)
        \<and> delete_survey req sid st = (unauthorized, st)
        \<and> create_question L req sid st = (unauthorized, st)
        \<and> update_question L req qid st = (unauthorized, st)
        \<and> delete_question req qid st = (unauthorized, st))
   \<and> (get_survey_row st sid = Some survey \<longrightarrow>
        owner_guarded (session_user_id req) (sv_user_id survey) st (get_survey L req sid st)
        \<and> owner_guarded (session_user_id req) (sv_user_id survey) st
            (update_survey L now req sid st)
        \<and> owner_guarded (session_user_id req) (sv_user_id survey) st (delete_survey req sid st)
        \<and> owner_guarded (session_user_id req) (sv_user_id survey) st
            (create_question L req sid st))
   \<and> (get_question_row st qid = Some question
        \<and> get_survey_row st (q_survey_id question) = Some parent \<longrightarrow>
        owner_guarded (session_user_id req) (sv_user_id parent) st
          (update_question L req qid st)
        \<and> owner_guarded (session_user_id req) (sv_user_id parent) st
            (delete_question req qid st))"
proof (intro conjI impI)
  show "unauthorized \<noteq> forbidden"
    by (simp add: unauthorized_def forbidden_def)
next
  assume "session_user_id req = None"
  then show "get_survey L req sid st = (unauthorized, st)"
    and "update_survey L now req sid st = (unauthorized, st)"
    and "delete_survey req sid st = (unauthorized, st)"
    and "create_question L req sid st = (unauthorized, st)"
    and "update_question L req qid st = (unauthorized, st)"
    and "delete_question req qid st = (unauthorized, st)"
    by (simp_all add: get_survey_def update_survey_def delete_survey_def create_question_def
        update_question_def delete_question_def)
qed (simp_all add: guard_get_survey guard_update_survey guard_delete_survey
      guard_create_question guard_update_question guard_delete_question)

theorem owner_only_operations_witness:
  "get_survey_row active_store 1 = Some (feedback_survey (JStr ''active''))
   \<and> get_question_row active_store 1 = Some satisfied_question
   \<and> get_survey_row active_store (q_survey_id satisfied_question)
       = Some (feedback_survey (JStr ''active''))
   \<and> get_survey ref_lib (anonymous JNull) 1 active_store = (unauthorized, active_store)
   \<and> update_question ref_lib (anonymous JNull) 1 active_store = (unauthorized, active_store)
   \<and> delete_survey (logged_in 2 JNull) 1 active_store = (forbidden, active_store)
   \<and> delete_question (logged_in 2 JNull) 1 active_store = (forbidden, active_store)
   \<and> fst (update_survey ref_lib 20 (logged_in 1 JNull) 1 active_store) \<noteq> unauthorized
   \<and> fst (update_survey ref_lib 20 (logged_in 1 JNull) 1 active_store) \<noteq> forbidden
   \<and> fst (delete_question (logged_in 1 JNull) 1 active_store) \<noteq> unauthorized
   \<and> fst (delete_question (logged_in 1 JNull) 1 active_store) \<noteq> forbidden"
proof -
  note row = active_store_survey
  note qrow = active_store_question
  have parent: "get_survey_row active_store (q_survey_id satisfied_question)
                 = Some (feedback_survey (JStr ''active''))"
    unfolding satisfied_question_parent by (rule row)
  note g = owner_only_operations [of _ ref_lib 1 active_store 20 1
      "feedback_survey (JStr ''active'')" satisfied_question
      "feedback_survey (JStr ''active'')"]
  from g [of "anonymous JNull"] g [of "logged_in 2 JNull"] g [of "logged_in 1 JNull"]
    row qrow parent
  show ?thesis
    by (simp add: owner_guarded_def anonymous_def logged_in_def feedback_survey_owner)
qed

subsection \<open>Submitting responses\<close>

text \<open>
  Claim C3. When the survey exists and its status is not \<^verbatim>\<open>'active'\<close>,
  \<^verbatim>\<open>submit_response\<close> answers 400 "Survey is not active" whatever the request carries
  (its body is not even read), and the database is the one it started from: no
  response row is created.
\<close>

theorem submit_response_not_active:
  assumes "get_survey_row st survey_id = Some survey"
    and "sv_status survey \<noteq> JStr ''active''"
  shows "submit_response L now req survey_id st = (not_active, st)"
  using assms by (simp add: submit_response_def)

theorem submit_response_not_active_witness:
  "get_survey_row closed_store 1 = Some (feedback_survey (JStr ''closed''))
   \<and> sv_status (feedback_survey (JStr ''closed'')) \<noteq> JStr ''active''
   \<and> submit_response ref_lib 20 (anonymous (JObj [(''1'', JStr ''Yes'')])) 1 closed_store
       = (not_active, closed_store)
   \<and> submit_response ref_lib 20 \<lparr>session_user_id = Some 1, get_json = Inl 400\<rparr> 1 closed_store
       = (not_active, closed_store)"
proof -
  have row: "get_survey_row closed_store 1 = Some (feedback_survey (JStr ''closed''))"
    by (simp add: get_survey_row_def closed_store_def feedback_survey_def)
  have st: "sv_status (feedback_survey (JStr ''closed'')) \<noteq> JStr ''active''"
    by (simp add: feedback_survey_def)
  from submit_response_not_active [OF row st, of ref_lib 20 "anonymous (JObj [(''1'', JStr ''Yes'')])"]
    submit_response_not_active [OF row st, of ref_lib 20
      "\<lparr>session_user_id = Some 1, get_json = Inl 400\<rparr>"]
    row st
  show ?thesis
    by simp
qed

lemma fold_max_ge: "a \<le> fold max ids (a::nat)"
proof (induction ids arbitrary: a)
  case Nil
  show ?case by simp
next
  case (Cons x xs)
  have "a \<le> max x a" by simp
  also have "\<dots> \<le> fold max xs (max x a)" by (rule Cons.IH)
  finally show ?case by simp
qed

lemma fold_max_upper: "x \<in> set ids \<Longrightarrow> x \<le> fold max ids (a::nat)"
proof (induction ids arbitrary: a)
  case Nil
  then show ?case by simp
next
  case (Cons y ys)
  show ?case
  proof (cases "x = y")
    case True
    have "x \<le> max y a" using True by simp
    also have "\<dots> \<le> fold max ys (max y a)" by (rule fold_max_ge)
    finally show ?thesis by simp
  next
    case False
    with Cons.prems have "x \<in> set ys" by simp
    then show ?thesis by (simp add: Cons.IH)
  qed
qed

lemma next_id_greater: "x \<in> set ids \<Longrightarrow> x < next_id ids"
  using fold_max_upper [of x ids 0] by (simp add: next_id_def)

lemma next_id_fresh: "next_id ids \<notin> set ids"
  using next_id_greater [of "next_id ids" ids] by auto

lemma find_append_fresh:
  "\<forall>x \<in> set xs. \<not> P x \<Longrightarrow> P y \<Longrightarrow> find P (xs @ [y]) = Some y"
  by (induction xs) auto

text \<open>
  Claim C2. \<^verbatim>\<open>submit_response\<close> has no identity or ownership test: when the survey
  exists, its status is \<^verbatim>\<open>'active'\<close> and the request carries a JSON value, the reply
  is 201 for every caller, one response row is added for the survey, and its
  \<^verbatim>\<open>user_id\<close> is the session's user id, absent when the session has none.
\<close>

theorem submit_response_open_to_all:
  assumes "get_survey_row st survey_id = Some survey"
    and "sv_status survey = JStr ''active''"
    and "get_json req = Inr data"
  shows "\<exists>r. submit_response L now req survey_id st
               = (Json (JObj [(''id'', JInt (int (r_id r)))]) 201,
                  st\<lparr>responses := responses st @ [r]\<rparr>)
             \<and> r_survey_id r = survey_id
             \<and> r_user_id r = session_user_id req"
proof -
  define r where "r = \<lparr>r_id = next_id (map r_id (responses st)), r_survey_id = survey_id,
    r_user_id = session_user_id req, r_response_data = Some (dumps L data),
    r_created_at = now\<rparr>"
  have "submit_response L now req survey_id st
       = (Json (JObj [(''id'', JInt (int (r_id r)))]) 201, st\<lparr>responses := responses st @ [r]\<rparr>)"
    using assms by (simp add: submit_response_def Let_def r_def)
  moreover have "r_survey_id r = survey_id" and "r_user_id r = session_user_id req"
    by (simp_all add: r_def)
  ultimately show ?thesis by blast
qed

theorem submit_response_open_to_all_witness:
  "get_survey_row active_store 1 = Some (feedback_survey (JStr ''active''))
   \<and> sv_status (feedback_survey (JStr ''active'')) = JStr ''active''
   \<and> get_json (anonymous (JObj [(''1'', JStr ''Yes'')])) = Inr (JObj [(''1'', JStr ''Yes'')])
   \<and> get_json (logged_in 2 (JObj [(''1'', JStr ''No'')])) = Inr (JObj [(''1'', JStr ''No'')])
   \<and> (\<exists>r. submit_response ref_lib 20 (anonymous (JObj [(''1'', JStr ''Yes'')])) 1 active_store
              = (Json (JObj [(''id'', JInt (int (r_id r)))]) 201,
                 active_store\<lparr>responses := responses active_store @ [r]\<rparr>)
            \<and> r_survey_id r = 1 \<and> r_user_id r = None)
   \<and> (\<exists>r. submit_response ref_lib 20 (logged_in 2 (JObj [(''1'', JStr ''No'')])) 1 active_store
              = (Json (JObj [(''id'', JInt (int (r_id r)))]) 201,
                 active_store\<lparr>responses := responses active_store @ [r]\<rparr>)
            \<and> r_survey_id r = 1 \<and> r_user_id r = Some 2)"
proof -
  have st: "sv_status (feedback_survey (JStr ''active'')) = JStr ''active''"
    by (simp add: feedback_survey_def)
  have b1: "get_json (anonymous (JObj [(''1'', JStr ''Yes'')])) = Inr (JObj [(''1'', JStr ''Yes'')])"
    by (simp add: anonymous_def)
  have b2: "get_json (logged_in 2 (JObj [(''1'', JStr ''No'')])) = Inr (JObj [(''1'', JStr ''No'')])"
    by (simp add: logged_in_def)
  have s1: "session_user_id (anonymous (JObj [(''1'', JStr ''Yes'')])) = None"
    by (simp add: anonymous_def)
  have s2: "session_user_id (logged_in 2 (JObj [(''1'', JStr ''No'')])) = Some 2"
    by (simp add: logged_in_def)
  from submit_response_open_to_all [OF active_store_survey st b1, of ref_lib 20]
    submit_response_open_to_all [OF active_store_survey st b2, of ref_lib 20]
    active_store_survey st b1 b2
  show ?thesis
    unfolding s1 s2 by blast
qed

text \<open>
  Claim C5. On an active survey \<^verbatim>\<open>submit_response\<close> answers 201 with the dictionary
  \<^verbatim>\<open>{'id': ...}\<close> and nothing else. The row found under that identifier belongs to the
  survey, is the only row with the identifier, and holds \<^verbatim>\<open>json.dumps\<close> of the
  submitted value; decoding it gives the submitted value back whenever
  \<^verbatim>\<open>json.loads\<close> inverts \<^verbatim>\<open>json.dumps\<close> on that value.
\<close>

theorem submit_response_round_trip:
  assumes "get_survey_row st survey_id = Some survey"
    and "sv_status survey = JStr ''active''"
    and "get_json req = Inr data"
    and "loads L (dumps L data) = Some data"
  shows "\<exists>rid r text.
           fst (submit_response L now req survey_id st) = Json (JObj [(''id'', JInt (int rid))]) 201
           \<and> get_response_row (snd (submit_response L now req survey_id st)) rid = Some r
           \<and> r \<in> set (survey_responses (snd (submit_response L now req survey_id st)) survey_id)
           \<and> filter (\<lambda>x. r_id x = rid) (responses (snd (submit_response L now req survey_id st)))
               = [r]
           \<and> r_response_data r = Some text
           \<and> text = dumps L data
           \<and> loads L text = Some data"
proof -
  define r where "r = \<lparr>r_id = next_id (map r_id (responses st)), r_survey_id = survey_id,
    r_user_id = session_user_id req, r_response_data = Some (dumps L data),
    r_created_at = now\<rparr>"
  have out: "submit_response L now req survey_id st
       = (Json (JObj [(''id'', JInt (int (r_id r)))]) 201, st\<lparr>responses := responses st @ [r]\<rparr>)"
    using assms(1-3) by (simp add: submit_response_def Let_def r_def)
  have fresh: "\<forall>x \<in> set (responses st). r_id x \<noteq> r_id r"
    using next_id_fresh [of "map r_id (responses st)"] by (force simp: r_def)
  have found: "get_response_row (st\<lparr>responses := responses st @ [r]\<rparr>) (r_id r) = Some r"
    using fresh by (simp add: get_response_row_def find_append_fresh)
  have only: "filter (\<lambda>x. r_id x = r_id r) (responses st @ [r]) = [r]"
    using fresh by (simp add: filter_empty_conv)
  have mine: "r \<in> set (survey_responses (st\<lparr>responses := responses st @ [r]\<rparr>) survey_id)"
    by (simp add: survey_responses_def r_def)
  have data: "r_response_data r = Some (dumps L data)"
    by (simp add: r_def)
  show ?thesis
    using out found only mine data assms(4) by auto
qed


theorem submit_response_round_trip_witness:
  "get_survey_row active_store 1 = Some (feedback_survey (JStr ''active''))
   \<and> sv_status (feedback_survey (JStr ''active'')) = JStr ''active''
   \<and> get_json (anonymous (JObj [(''1'', JStr ''Yes'')])) = Inr (JObj [(''1'', JStr ''Yes'')])
   \<and> loads ref_lib (dumps ref_lib (JObj [(''1'', JStr ''Yes'')]))
       = Some (JObj [(''1'', JStr ''Yes'')])
   \<and> (\<exists>rid r text.
         fst (submit_response ref_lib 20 (anonymous (JObj [(''1'', JStr ''Yes'')])) 1 active_store)
           = Json (JObj [(''id'', JInt (int rid))]) 201
         \<and> get_response_row
             (snd (submit_response ref_lib 20 (anonymous (JObj [(''1'', JStr ''Yes'')])) 1
                active_store)) rid = Some r
         \<and> r_response_data r = Some text
         \<and> loads ref_lib text = Some (JObj [(''1'', JStr ''Yes'')]))"
proof -
  have body: "get_json (anonymous (JObj [(''1'', JStr ''Yes'')])) = Inr (JObj [(''1'', JStr ''Yes'')])"
    by (simp add: anonymous_def)
  from submit_response_round_trip [OF active_store_survey active_status body ref_lib_yes, of 20]
    active_store_survey active_status body ref_lib_yes
  show ?thesis
    by blast
qed

subsection \<open>Updating a survey\<close>

lemma find_map_replace:
  assumes "find (\<lambda>x. key x = k) xs = Some x" and "key y = k"
  shows "find (\<lambda>x. key x = k) (map (\<lambda>x. if key x = k then y else x) xs) = Some y"
  using assms by (induction xs) (auto split: if_splits)

lemma update_survey_stores:
  fixes now :: nat
  assumes "session_user_id req = Some (sv_user_id survey)"
    and "get_survey_row st sid = Some survey"
    and "get_json req = Inr (JObj kvs)"
    and "dict_get kvs ''title'' (sv_title survey) \<noteq> JNull"
  defines "survey' \<equiv> survey
             \<lparr>sv_title := dict_get kvs ''title'' (sv_title survey),
              sv_description := dict_get kvs ''description'' (sv_description survey),
              sv_status := dict_get kvs ''status'' (sv_status survey),
              sv_updated_at := now\<rparr>"
  shows "fst (update_survey L now req sid st)
           = Json (JObj [(''id'', JInt (int (sv_id survey))),
                         (''title'', sv_title survey'),
                         (''description'', sv_description survey'),
                         (''status'', sv_status survey'),
                         (''updated_at'', JStr (isoformat L now))]) 200"
    and "get_survey_row (snd (update_survey L now req sid st)) sid = Some survey'"
    and "questions (snd (update_survey L now req sid st)) = questions st"
    and "responses (snd (update_survey L now req sid st)) = responses st"
proof -
  have id: "sv_id survey = sid"
    using assms(2) by (auto simp: get_survey_row_def dest: find_Some_iff [THEN iffD1])
  have out: "update_survey L now req sid st
      = (Json (JObj [(''id'', JInt (int (sv_id survey))),
                         (''title'', sv_title survey'),
                         (''description'', sv_description survey'),
                         (''status'', sv_status survey'),
                         (''updated_at'', JStr (isoformat L now))]) 200,
         st\<lparr>surveys := map (\<lambda>s. if sv_id s = sid then survey' else s) (surveys st)\<rparr>)"
    using assms(1-4) by (simp add: update_survey_def Let_def survey'_def)
  show "fst (update_survey L now req sid st)
           = Json (JObj [(''id'', JInt (int (sv_id survey))),
                         (''title'', sv_title survey'),
                         (''description'', sv_description survey'),
                         (''status'', sv_status survey'),
                         (''updated_at'', JStr (isoformat L now))]) 200"
    by (simp add: out)
  have "sv_id survey' = sid" by (simp add: survey'_def id)
  with assms(2) show "get_survey_row (snd (update_survey L now req sid st)) sid = Some survey'"
    unfolding out get_survey_row_def by (simp add: find_map_replace)
  show "questions (snd (update_survey L now req sid st)) = questions st"
    and "responses (snd (update_survey L now req sid st)) = responses st"
    by (simp_all add: out)
qed

text \<open>
  Claim C10. An owner's \<^verbatim>\<open>update_survey\<close> whose body is the empty dict is accepted
  with 200; the stored survey keeps its title, description, status, owner and creation
  time, and its \<^verbatim>\<open>updated_at\<close> is set to the time of the call, hence later than
  before whenever the clock has moved on since the previous update.
\<close>

theorem update_survey_empty_body:
  assumes "session_user_id req = Some (sv_user_id survey)"
    and "get_survey_row st sid = Some survey"
    and "get_json req = Inr (JObj [])"
    and "sv_title survey \<noteq> JNull"
  shows "\<exists>survey'. get_survey_row (snd (update_survey L now req sid st)) sid = Some survey'
           \<and> (\<exists>body. fst (update_survey L now req sid st) = Json body 200)
           \<and> sv_title survey' = sv_title survey
           \<and> sv_description survey' = sv_description survey
           \<and> sv_status survey' = sv_status survey
           \<and> sv_user_id survey' = sv_user_id survey
           \<and> sv_created_at survey' = sv_created_at survey
           \<and> sv_updated_at survey' = now
           \<and> (sv_updated_at survey < now \<longrightarrow> sv_updated_at survey < sv_updated_at survey')"
proof -
  have title: "dict_get [] ''title'' (sv_title survey) \<noteq> JNull"
    using assms(4) by (simp add: dict_get_def)
  note facts = update_survey_stores [OF assms(1-3) title, of L now]
  show ?thesis
    using facts(1,2) by (simp add: dict_get_def)
qed


lemma active_title: "sv_title (feedback_survey status) \<noteq> JNull"
  by (simp add: feedback_survey_def)

theorem update_survey_empty_body_witness:
  "session_user_id (logged_in 1 (JObj [])) = Some (sv_user_id (feedback_survey (JStr ''active'')))
   \<and> get_survey_row active_store 1 = Some (feedback_survey (JStr ''active''))
   \<and> get_json (logged_in 1 (JObj [])) = Inr (JObj [])
   \<and> sv_title (feedback_survey (JStr ''active'')) \<noteq> JNull
   \<and> get_survey_row (snd (update_survey ref_lib 20 (logged_in 1 (JObj [])) 1 active_store)) 1
       = Some ((feedback_survey (JStr ''active''))\<lparr>sv_updated_at := 20\<rparr>)
   \<and> sv_updated_at (feedback_survey (JStr ''active'')) < 20"
proof -
  have who: "session_user_id (logged_in 1 (JObj []))
              = Some (sv_user_id (feedback_survey (JStr ''active'')))"
    by (simp add: logged_in_def feedback_survey_def)
  have body: "get_json (logged_in 1 (JObj [])) = Inr (JObj [])"
    by (simp add: logged_in_def)
  have old: "sv_updated_at (feedback_survey (JStr ''active'')) < 20"
    by (simp add: feedback_survey_def)
  from update_survey_empty_body [OF who active_store_survey body active_title, of ref_lib 20]
  obtain survey' where
    row: "get_survey_row (snd (update_survey ref_lib 20 (logged_in 1 (JObj [])) 1 active_store)) 1
           = Some survey'"
    and same: "sv_title survey' = sv_title (feedback_survey (JStr ''active''))"
      "sv_description survey' = sv_description (feedback_survey (JStr ''active''))"
      "sv_status survey' = sv_status (feedback_survey (JStr ''active''))"
      "sv_user_id survey' = sv_user_id (feedback_survey (JStr ''active''))"
      "sv_created_at survey' = sv_created_at (feedback_survey (JStr ''active''))"
      "sv_updated_at survey' = 20"
    by blast
  have "sv_id survey' = 1"
    using row by (auto simp: get_survey_row_def dest: find_Some_iff [THEN iffD1])
  with same have "survey' = (feedback_survey (JStr ''active''))\<lparr>sv_updated_at := 20\<rparr>"
    by (simp add: feedback_survey_def)
  with row who active_store_survey body active_title old show ?thesis
    by simp
qed

subsection \<open>No validation of questions, status or order\<close>

lemma create_question_stores:
  assumes "session_user_id req = Some (sv_user_id survey)"
    and "get_survey_row st sid = Some survey"
    and "get_json req = Inr (JObj kvs)"
    and "map_of kvs ''type'' = Some ty" and "ty \<noteq> JNull"
    and "map_of kvs ''text'' = Some tx" and "tx \<noteq> JNull"
  shows "\<exists>q. snd (create_question L req sid st) = st\<lparr>questions := questions st @ [q]\<rparr>
           \<and> fst (create_question L req sid st)
               = (case loads_or_empty L (q_options q) of
                    None \<Rightarrow> Raised JSONDecodeError
                  | Some opts \<Rightarrow> Json (question_reply q opts) 201)
           \<and> q_id q = next_id (map q_id (questions st))
           \<and> q_survey_id q = sid
           \<and> q_type q = ty
           \<and> q_text q = tx
           \<and> q_description q = dict_get kvs ''description'' (JStr [])
           \<and> q_required q = dict_get kvs ''required'' (JBool False)
           \<and> q_options q = Some (dumps L (dict_get kvs ''options'' (JList [])))
           \<and> q_order q = dict_get kvs ''order'' (JInt 0)"
proof -
  define q where "q = \<lparr>q_id = next_id (map q_id (questions st)), q_survey_id = sid,
    q_type = ty, q_text = tx, q_description = dict_get kvs ''description'' (JStr []),
    q_required = dict_get kvs ''required'' (JBool False),
    q_options = Some (dumps L (dict_get kvs ''options'' (JList []))),
    q_order = dict_get kvs ''order'' (JInt 0)\<rparr>"
  have "create_question L req sid st
      = ((case loads_or_empty L (q_options q) of
            None \<Rightarrow> Raised JSONDecodeError
          | Some opts \<Rightarrow> Json (question_reply q opts) 201),
         st\<lparr>questions := questions st @ [q]\<rparr>)"
    using assms by (simp add: create_question_def Let_def q_def split: option.splits)
  then show ?thesis
    by (intro exI [of _ q]) (simp add: q_def)
qed

text \<open>
  Claim C6, as amended. \<^verbatim>\<open>create_question\<close> validates nothing: when the owner sends
  a dict with a \<^verbatim>\<open>type\<close> and a \<^verbatim>\<open>text\<close> other than \<^verbatim>\<open>null\<close>, its fields being
  of the types of their columns, the question is
  appended to the survey's questions whatever the type (choice-like or not, recognised or
  not), the text (empty or not) and the options (empty, or missing and then stored as
  \<^verbatim>\<open>[]\<close>); the reply is 201 with the question once its stored options decode.
\<close>

theorem create_question_unvalidated:
  assumes "session_user_id req = Some (sv_user_id survey)"
    and "get_survey_row st sid = Some survey"
    and "get_json req = Inr (JObj kvs)"
    and "map_of kvs ''type'' = Some ty" and "ty \<noteq> JNull"
    and "map_of kvs ''text'' = Some tx" and "tx \<noteq> JNull"
    and "question_fields_typed kvs"
  shows "\<exists>q. survey_questions (snd (create_question L req sid st)) sid
               = survey_questions st sid @ [q]
           \<and> q_type q = ty
           \<and> q_text q = tx
           \<and> q_options q = Some (dumps L (dict_get kvs ''options'' (JList [])))
           \<and> (\<forall>opts. loads_or_empty L (q_options q) = Some opts \<longrightarrow>
                  fst (create_question L req sid st) = Json (question_reply q opts) 201)"
proof -
  from create_question_stores [OF assms(1-7), of L]
  obtain q where q: "snd (create_question L req sid st) = st\<lparr>questions := questions st @ [q]\<rparr>"
    "fst (create_question L req sid st)
       = (case loads_or_empty L (q_options q) of
            None \<Rightarrow> Raised JSONDecodeError
          | Some opts \<Rightarrow> Json (question_reply q opts) 201)"
    "q_survey_id q = sid" "q_type q = ty" "q_text q = tx"
    "q_options q = Some (dumps L (dict_get kvs ''options'' (JList [])))"
    by blast
  have "survey_questions (snd (create_question L req sid st)) sid = survey_questions st sid @ [q]"
    by (simp add: q(1,3) survey_questions_def)
  moreover have "\<forall>opts. loads_or_empty L (q_options q) = Some opts \<longrightarrow>
      fst (create_question L req sid st) = Json (question_reply q opts) 201"
    by (simp add: q(2))
  ultimately show ?thesis
    using q(4-6) by blast
qed

text \<open>
  Claim C6 as written fails: the owner adds a single-choice question with no options,
  the reply is 201 and the survey has one question more.
\<close>

theorem create_question_unvalidated_counterexample:
  "spec_choice_like ''single_choice''
   \<and> create_question ref_lib
       (logged_in 1 (JObj [(''type'', JStr ''single_choice''), (''text'', JStr ''Again?''),
                           (''options'', JList [])]))
       1 active_store
     = (Json (JObj [(''id'', JInt 2), (''type'', JStr ''single_choice''),
                    (''text'', JStr ''Again?''), (''description'', JStr []),
                    (''required'', JBool False), (''options'', JList []),
                    (''order'', JInt 0)]) 201,
        active_store\<lparr>questions :=
          [satisfied_question,
           \<lparr>q_id = 2, q_survey_id = 1, q_type = JStr ''single_choice'',
            q_text = JStr ''Again?'', q_description = JStr [], q_required = JBool False,
            q_options = Some ''[]'', q_order = JInt 0\<rparr>]\<rparr>)
   \<and> survey_questions
         (snd (create_question ref_lib
           (logged_in 1 (JObj [(''type'', JStr ''single_choice''), (''text'', JStr ''Again?''),
                               (''options'', JList [])]))
           1 active_store)) 1
       \<noteq> survey_questions active_store 1"
  by code_simp


lemma logged_in_simps:
  "session_user_id (logged_in u data) = Some u" "get_json (logged_in u data) = Inr data"
  by (simp_all add: logged_in_def)

lemma anonymous_simps:
  "session_user_id (anonymous data) = None" "get_json (anonymous data) = Inr data"
  by (simp_all add: anonymous_def)

theorem create_question_unvalidated_witness:
  "session_user_id
       (logged_in 1 (JObj [(''type'', JStr ''dropdown''), (''text'', JStr [])]))
     = Some (sv_user_id (feedback_survey (JStr ''active'')))
   \<and> get_survey_row active_store 1 = Some (feedback_survey (JStr ''active''))
   \<and> get_json (logged_in 1 (JObj [(''type'', JStr ''dropdown''), (''text'', JStr [])]))
       = Inr (JObj [(''type'', JStr ''dropdown''), (''text'', JStr [])])
   \<and> map_of [(''type'', JStr ''dropdown''), (''text'', JStr [])] ''type''
       = Some (JStr ''dropdown'')
   \<and> JStr ''dropdown'' \<noteq> JNull
   \<and> map_of [(''type'', JStr ''dropdown''), (''text'', JStr [])] ''text'' = Some (JStr [])
   \<and> JStr [] \<noteq> JNull
   \<and> question_fields_typed [(''type'', JStr ''dropdown''), (''text'', JStr [])]
   \<and> (\<exists>q. survey_questions
              (snd (create_question ref_lib
                 (logged_in 1 (JObj [(''type'', JStr ''dropdown''), (''text'', JStr [])]))
                 1 active_store)) 1
            = survey_questions active_store 1 @ [q]
          \<and> q_type q = JStr ''dropdown'' \<and> q_text q = JStr []
          \<and> q_options q = Some ''[]'')"
proof -
  let ?kvs = "[(''type'', JStr ''dropdown''), (''text'', JStr [])]"
  have who: "session_user_id (logged_in 1 (JObj ?kvs))
              = Some (sv_user_id (feedback_survey (JStr ''active'')))"
    by (simp add: logged_in_simps feedback_survey_owner)
  have body: "get_json (logged_in 1 (JObj ?kvs)) = Inr (JObj ?kvs)"
    by (simp add: logged_in_simps)
  have ty: "map_of ?kvs ''type'' = Some (JStr ''dropdown'')" and ty': "JStr ''dropdown'' \<noteq> JNull"
    and tx: "map_of ?kvs ''text'' = Some (JStr [])" and tx': "JStr [] \<noteq> JNull"
    by simp_all
  have typed: "question_fields_typed ?kvs"
    by (simp add: question_fields_typed_def typed_field_def)
  have opts: "dumps ref_lib (dict_get ?kvs ''options'' (JList [])) = ''[]''"
    by code_simp
  from create_question_unvalidated [OF who active_store_survey body ty ty' tx tx' typed,
      of ref_lib]
    who active_store_survey body typed
  show ?thesis
    unfolding opts by auto
qed




subsection \<open>Updating a question\<close>

lemma find_key: "find (\<lambda>x. key x = k) xs = Some x \<Longrightarrow> key x = k"
  by (auto dest: find_Some_iff [THEN iffD1])








subsection \<open>Deleting a survey\<close>

text \<open>
  Claim C4. The claim fails on the code for a survey that has a response: the owner's
  \<^verbatim>\<open>delete_survey\<close> raises \<^verbatim>\<open>IntegrityError\<close> and deletes nothing, so the survey,
  its question and its response are all still found afterwards. The relationship
  \<^verbatim>\<open>questions\<close> carries the delete cascade; the relationship \<^verbatim>\<open>responses\<close> lacks
  it.
\<close>

theorem delete_survey_with_responses:
  "delete_survey (logged_in 1 JNull) 1 answered_store = (Raised IntegrityError, answered_store)
   \<and> get_survey_row answered_store 1 = Some (feedback_survey (JStr ''active''))
   \<and> get_question_row answered_store 1 = Some satisfied_question
   \<and> get_response_row answered_store 1 = Some yes_response
   \<and> survey_responses answered_store 1 = [yes_response]"
  by code_simp

text \<open>No run of \<^verbatim>\<open>delete_survey\<close> removes a response.\<close>

lemma delete_survey_responses: "responses (snd (delete_survey req sid st)) = responses st"
  by (simp add: delete_survey_def split: option.splits)

subsection \<open>Key order is kept by every handler\<close>

lemma sorted_keys_append:
  "sorted_wrt (<) ids \<Longrightarrow> sorted_wrt (<) (ids @ [next_id ids])"
  by (simp add: sorted_wrt_append next_id_greater)

lemma map_key_replace:
  "key y = k \<Longrightarrow> map (key \<circ> (\<lambda>x. if key x = k then y else x)) xs = map key xs"
  by (induction xs) auto

lemma sorted_keys_filter:
  "sorted_wrt (<) (map key xs) \<Longrightarrow> sorted_wrt (<) (map key (filter P xs))"
  by (induction xs) (auto)

lemma keys_ascending_create_survey:
  "keys_ascending st \<Longrightarrow> keys_ascending (snd (create_survey L now req st))"
  by (auto simp: keys_ascending_def create_survey_def Let_def sorted_keys_append
      split: option.splits sum.splits json.splits)

lemma keys_ascending_get_survey: "snd (get_survey L req sid st) = st"
  by (simp add: get_survey_def split: option.splits sum.splits)

lemma keys_ascending_update_survey:
  "keys_ascending st \<Longrightarrow> keys_ascending (snd (update_survey L now req sid st))"
  by (auto simp: keys_ascending_def update_survey_def Let_def get_survey_row_def
      map_key_replace dest!: find_key split: option.splits sum.splits json.splits)

lemma keys_ascending_delete_survey:
  "keys_ascending st \<Longrightarrow> keys_ascending (snd (delete_survey req sid st))"
  by (auto simp: keys_ascending_def delete_survey_def sorted_keys_filter split: option.splits)

lemma keys_ascending_create_question:
  "keys_ascending st \<Longrightarrow> keys_ascending (snd (create_question L req sid st))"
  by (auto simp: keys_ascending_def create_question_def Let_def sorted_keys_append
      split: option.splits sum.splits json.splits)

lemma keys_ascending_update_question:
  "keys_ascending st \<Longrightarrow> keys_ascending (snd (update_question L req qid st))"
  by (auto simp: keys_ascending_def update_question_def Let_def get_question_row_def
      map_key_replace dest!: find_key split: option.splits sum.splits json.splits)

lemma keys_ascending_delete_question:
  "keys_ascending st \<Longrightarrow> keys_ascending (snd (delete_question req qid st))"
  by (auto simp: keys_ascending_def delete_question_def sorted_keys_filter split: option.splits)

lemma keys_ascending_submit_response:
  "keys_ascending st \<Longrightarrow> keys_ascending (snd (submit_response L now req sid st))"
  by (auto simp: keys_ascending_def submit_response_def Let_def sorted_keys_append
      split: option.splits sum.splits)

subsection \<open>Listing the questions\<close>

lemma question_data_entries:
  "question_data L q = Inr d \<Longrightarrow>
   entry ''id'' d = Some (JInt (int (q_id q))) \<and> entry ''order'' d = Some (q_order q)"
  by (auto simp: question_data_def Let_def entry_def split: option.splits if_splits)

lemma questions_data_entries:
  "questions_data L qs = Inr ds \<Longrightarrow>
   map (entry ''id'') ds = map (\<lambda>q. Some (JInt (int (q_id q)))) qs
   \<and> map (entry ''order'') ds = map (\<lambda>q. Some (q_order q)) qs"
proof (induction qs arbitrary: ds)
  case Nil
  then show ?case by simp
next
  case (Cons q qs)
  from Cons.prems obtain d rest where d: "question_data L q = Inr d"
    and rest: "questions_data L qs = Inr rest" and ds: "ds = d # rest"
    by (auto split: sum.splits)
  from question_data_entries [OF d] Cons.IH [OF rest] ds show ?case
    by simp
qed

lemma get_survey_listed:
  assumes "fst (get_survey L req sid st) = Json body 200"
  shows "questions_data L (survey_questions st sid)
           = Inr (listed_questions (fst (get_survey L req sid st)))"
  using assms
  by (auto simp: get_survey_def listed_questions_def unauthorized_def forbidden_def
      split: option.splits sum.splits if_splits)

text \<open>
  Claim C7, as amended. \<^verbatim>\<open>get_survey\<close> writes nothing, so a second call on the
  database it leaves gives the same reply. When it answers 200, its \<^verbatim>\<open>questions\<close>
  list holds the survey's rows in table order, which is ascending \<^verbatim>\<open>id\<close>; every
  entry carries the row's \<^verbatim>\<open>order\<close>, which plays no part in the sequence.
\<close>

theorem get_survey_lists_in_key_order:
  assumes "keys_ascending st"
  shows "snd (get_survey L req sid st) = st
         \<and> get_survey L req sid (snd (get_survey L req sid st)) = get_survey L req sid st
         \<and> (\<forall>body. fst (get_survey L req sid st) = Json body 200 \<longrightarrow>
               map (entry ''id'') (listed_questions (fst (get_survey L req sid st)))
                 = map (\<lambda>q. Some (JInt (int (q_id q)))) (survey_questions st sid)
               \<and> map (entry ''order'') (listed_questions (fst (get_survey L req sid st)))
                   = map (\<lambda>q. Some (q_order q)) (survey_questions st sid)
               \<and> sorted_wrt (<) (map q_id (survey_questions st sid)))"
proof -
  have same: "snd (get_survey L req sid st) = st"
    by (rule keys_ascending_get_survey)
  have sorted: "sorted_wrt (<) (map q_id (survey_questions st sid))"
    using assms unfolding keys_ascending_def survey_questions_def
    by (simp add: sorted_keys_filter)
  show ?thesis
    using same sorted questions_data_entries [OF get_survey_listed] by auto
qed

text \<open>
  Claim C7 as written fails: the question with \<^verbatim>\<open>order\<close> \<open>-1\<close> was created second
  and is listed second, after the question with \<^verbatim>\<open>order\<close> \<open>0\<close>.
\<close>

theorem get_survey_lists_in_key_order_counterexample:
  "fst (get_survey ref_lib (logged_in 1 JNull) 1 reordered_store)
     = Json (JObj
         [(''id'', JInt 1), (''title'', JStr ''Q1 Feedback''),
          (''description'', JStr []), (''status'', JStr ''active''),
          (''created_at'', JStr ''10''), (''updated_at'', JStr ''12''),
          (''questions'',
           JList
            [JObj
              [(''id'', JInt 1), (''type'', JStr ''single_choice''),
               (''text'', JStr ''Satisfied?''), (''description'', JStr []),
               (''required'', JBool False), (''order'', JInt 0),
               (''options'', JList [JStr ''Yes'', JStr ''No''])],
             JObj
              [(''id'', JInt 2), (''type'', JStr ''text''),
               (''text'', JStr ''Why?''), (''description'', JStr []),
               (''required'', JBool False), (''order'', JInt (- 1)),
               (''options'', JList [])]])]) 200
   \<and> \<not> by_order_then_id
         (listed_questions (fst (get_survey ref_lib (logged_in 1 JNull) 1 reordered_store)))"
  by code_simp

theorem get_survey_lists_in_key_order_witness:
  "keys_ascending reordered_store
   \<and> get_survey ref_lib (logged_in 1 JNull) 1
       (snd (get_survey ref_lib (logged_in 1 JNull) 1 reordered_store))
     = get_survey ref_lib (logged_in 1 JNull) 1 reordered_store
   \<and> (\<exists>body. fst (get_survey ref_lib (logged_in 1 JNull) 1 reordered_store) = Json body 200)
   \<and> map (entry ''id'')
         (listed_questions (fst (get_survey ref_lib (logged_in 1 JNull) 1 reordered_store)))
       = [Some (JInt 1), Some (JInt 2)]
   \<and> map (entry ''order'')
         (listed_questions (fst (get_survey ref_lib (logged_in 1 JNull) 1 reordered_store)))
       = [Some (JInt 0), Some (JInt (- 1))]"
proof -
  have inv: "keys_ascending reordered_store"
    by code_simp
  have ok: "\<exists>body. fst (get_survey ref_lib (logged_in 1 JNull) 1 reordered_store) = Json body 200"
    by (intro exI, code_simp)
  have rows: "survey_questions reordered_store 1 = [satisfied_question, sooner_question]"
    by code_simp
  have fields: "q_id satisfied_question = 1" "q_id sooner_question = 2"
    "q_order satisfied_question = JInt 0" "q_order sooner_question = JInt (- 1)"
    by (simp_all add: satisfied_question_def sooner_question_def)
  from get_survey_lists_in_key_order [OF inv, of ref_lib "logged_in 1 JNull" 1] ok inv
  show ?thesis
    by (auto simp: rows [unfolded One_nat_def] fields)
qed

lemma keys_ascending_empty: "keys_ascending \<lparr>surveys = [], questions = [], responses = []\<rparr>"
  by (simp add: keys_ascending_def)

subsection \<open>The scenario's states are reached through the handlers\<close>

lemma active_store_reached:
  "snd (update_survey ref_lib 12 (logged_in 1 (JObj [(''status'', JStr ''active'')])) 1
     (snd (create_question ref_lib
        (logged_in 1 (JObj [(''type'', JStr ''single_choice''), (''text'', JStr ''Satisfied?''),
                            (''options'', JList [JStr ''Yes'', JStr ''No''])])) 1
        (snd (create_survey ref_lib 10 (logged_in 1 (JObj [(''title'', JStr ''Q1 Feedback'')]))
           empty_db)))))
   = active_store"
  by code_simp

lemma closed_store_reached:
  "snd (update_survey ref_lib 12 (logged_in 1 (JObj [(''status'', JStr ''closed'')])) 1
     active_store)
   = closed_store"
  by code_simp

lemma answered_store_reached:
  "snd (submit_response ref_lib 15 (anonymous (JObj [(''1'', JStr ''Yes'')])) 1 active_store)
   = answered_store"
  by code_simp

lemma reordered_store_reached:
  "snd (create_question ref_lib
     (logged_in 1 (JObj [(''type'', JStr ''text''), (''text'', JStr ''Why?''),
                         (''order'', JInt (- 1))])) 1 active_store)
   = reordered_store"
  by code_simp

subsection \<open>A survey without responses is deleted with its questions\<close>

lemma keys_distinct:
  assumes "sorted_wrt (<) (map key xs)" and "x \<in> set xs" and "y \<in> set xs"
    and "key x = (key y :: nat)"
  shows "x = y"
proof -
  have "distinct (map key xs)"
    using assms(1) strict_sorted_iff by blast
  then have "inj_on key (set xs)"
    by (simp add: distinct_map)
  with assms(2-4) show ?thesis
    by (auto dest: inj_onD)
qed

lemma delete_survey_cascades_to_questions:
  assumes "session_user_id req = Some (sv_user_id survey)"
    and "get_survey_row st sid = Some survey"
    and "survey_responses st sid = []"
    and "keys_ascending st"
  shows "fst (delete_survey req sid st) = Empty 204"
    and "get_survey_row (snd (delete_survey req sid st)) sid = None"
    and "survey_questions (snd (delete_survey req sid st)) sid = []"
    and "\<forall>q \<in> set (survey_questions st sid).
           get_question_row (snd (delete_survey req sid st)) (q_id q) = None"
proof -
  have out: "delete_survey req sid st
      = (Empty 204,
         st\<lparr>surveys := filter (\<lambda>s. sv_id s \<noteq> sid) (surveys st),
            questions := filter (\<lambda>q. q_survey_id q \<noteq> sid) (questions st)\<rparr>)"
    using assms(1-3) by (simp add: delete_survey_def)
  show "fst (delete_survey req sid st) = Empty 204"
    by (simp add: out)
  show "get_survey_row (snd (delete_survey req sid st)) sid = None"
    by (simp add: out get_survey_row_def find_None_iff)
  show "survey_questions (snd (delete_survey req sid st)) sid = []"
    by (simp add: out survey_questions_def filter_empty_conv)
  show "\<forall>q \<in> set (survey_questions st sid).
           get_question_row (snd (delete_survey req sid st)) (q_id q) = None"
  proof
    fix q
    assume "q \<in> set (survey_questions st sid)"
    then have q: "q \<in> set (questions st)" "q_survey_id q = sid"
      by (simp_all add: survey_questions_def)
    have "\<not> (\<exists>x. x \<in> set (filter (\<lambda>q. q_survey_id q \<noteq> sid) (questions st))
                 \<and> q_id x = q_id q)"
    proof
      assume "\<exists>x. x \<in> set (filter (\<lambda>q. q_survey_id q \<noteq> sid) (questions st)) \<and> q_id x = q_id q"
      then obtain x where x: "x \<in> set (questions st)" "q_survey_id x \<noteq> sid" "q_id x = q_id q"
        by auto
      from assms(4) have "sorted_wrt (<) (map q_id (questions st))"
        by (simp add: keys_ascending_def)
      from keys_distinct [OF this x(1) q(1) x(3)] x(2) q(2) show False
        by simp
    qed
    then show "get_question_row (snd (delete_survey req sid st)) (q_id q) = None"
      by (simp add: out get_question_row_def find_None_iff)
  qed
qed

end
